theory Spec2Isabelle
  imports
    Main
    "HOL-Library.Word"
    "HOL-Library.Multiset"
    "HOL-Library.Char_ord"
    "HOL-Library.List_Lexorder"
    "HOL-Library.Product_Lexorder"
    "HOL-Library.Signed_Division"
    "HOL-Library.Log_Nat"
begin

section \<open>Docker Manager: the data model\<close>

text \<open>
  The Go program is a thin layer over the Docker Engine client, \<^verbatim>\<open>systemctl\<close> and the
  \<^verbatim>\<open>/proc\<close> file system. Each call to one of these collaborators is modelled by its
  result: a Go pair \<^verbatim>\<open>(value, err)\<close> is a sum \<open>error + value\<close> with \<open>Inl\<close> the error,
  and a Go \<^verbatim>\<open>error\<close> is the text its \<^verbatim>\<open>Error()\<close> method returns.
\<close>

datatype error = MkError (Error: string)

type_synonym int64 = "64 word"

text \<open>\<^verbatim>\<open>types.Container\<close> and \<^verbatim>\<open>types.ImageSummary\<close> of the Docker client, with the fields
  the program reads.\<close>

record Container =
  Container_ID :: string
  Container_State :: string

record ImageSummary =
  Image_ID :: string
  Image_Size :: int64

text \<open>\<^verbatim>\<open>models.SystemStats\<close>. The counters of type \<^verbatim>\<open>int\<close> only ever count elements of a slice,
  so they cannot overflow and are natural numbers; \<^verbatim>\<open>Images.Size\<close> is a sum of 64-bit sizes
  and wraps around as Go's \<^verbatim>\<open>int64\<close> does.\<close>

record SystemStats =
  Containers_Running :: nat
  Containers_Paused :: nat
  Containers_Stopped :: nat
  Containers_Total :: nat
  Images_Total :: nat
  Images_Size :: int64
  Networks_Total :: nat
  Volumes_Total :: nat

definition SystemStats_zero :: SystemStats where
  "SystemStats_zero =
     \<lparr>Containers_Running = 0, Containers_Paused = 0, Containers_Stopped = 0,
      Containers_Total = 0, Images_Total = 0, Images_Size = 0,
      Networks_Total = 0, Volumes_Total = 0\<rparr>"

text \<open>The answers of the Docker daemon to the four list calls of one request. The calls are
  independent of each other: nothing ties the four answers to one instant.\<close>

record ('n, 'v) DockerLists =
  ContainerList :: "error + Container list"
  ImageList :: "error + ImageSummary list"
  NetworkList :: "error + 'n list"
  VolumeList :: "error + 'v list"

section \<open>Docker facade: \<^verbatim>\<open>GetSystemStats\<close>\<close>

text \<open>The \<^verbatim>\<open>switch container.State\<close> in the body of the loop over the containers.\<close>

definition countContainer :: "Container \<Rightarrow> SystemStats \<Rightarrow> SystemStats" where
  "countContainer c stats =
     (if Container_State c = ''running''
        then stats\<lparr>Containers_Running := Containers_Running stats + 1\<rparr>
      else if Container_State c = ''paused''
        then stats\<lparr>Containers_Paused := Containers_Paused stats + 1\<rparr>
      else stats\<lparr>Containers_Stopped := Containers_Stopped stats + 1\<rparr>)"

fun countContainers :: "Container list \<Rightarrow> SystemStats \<Rightarrow> SystemStats" where
  "countContainers [] stats = stats"
| "countContainers (c # cs) stats = countContainers cs (countContainer c stats)"

fun sumImageSizes :: "ImageSummary list \<Rightarrow> SystemStats \<Rightarrow> SystemStats" where
  "sumImageSizes [] stats = stats"
| "sumImageSizes (img # imgs) stats =
     sumImageSizes imgs (stats\<lparr>Images_Size := Images_Size stats + Image_Size img\<rparr>)"

definition GetSystemStats :: "('n, 'v) DockerLists \<Rightarrow> error + SystemStats" where
  "GetSystemStats d =
     (case ContainerList d of Inl err \<Rightarrow> Inl err | Inr containers \<Rightarrow>
      case ImageList d of Inl err \<Rightarrow> Inl err | Inr images \<Rightarrow>
      case NetworkList d of Inl err \<Rightarrow> Inl err | Inr networks \<Rightarrow>
      case VolumeList d of Inl err \<Rightarrow> Inl err | Inr volumes \<Rightarrow>
        (let stats = SystemStats_zero;
             stats = stats\<lparr>Containers_Total := length containers\<rparr>;
             stats = countContainers containers stats;
             stats = stats\<lparr>Images_Total := length images\<rparr>;
             stats = sumImageSizes images stats;
             stats = stats\<lparr>Networks_Total := length networks\<rparr>;
             stats = stats\<lparr>Volumes_Total := length volumes\<rparr>
         in Inr stats))"

section \<open>The Go library functions the program calls on strings\<close>

text \<open>
  A Go string is a sequence of bytes, here a \<open>string\<close> (a list of 8-bit characters). The
  functions of packages \<^verbatim>\<open>strings\<close>, \<^verbatim>\<open>strconv\<close> and \<^verbatim>\<open>bufio\<close> that the program uses are
  modelled after their documented behaviour.

  \<^verbatim>\<open>unicode.IsSpace\<close> holds of the code points U+0009 to U+000D, U+0020, U+0085, U+00A0,
  U+1680, U+2000 to U+200A, U+2028, U+2029, U+202F, U+205F and U+3000. The first six are
  single bytes; the others are the two- and three-byte UTF-8 sequences below. The lead byte
  of each sequence is no continuation byte, so a sequence found at some position of a
  string is a white-space code point of the string decoded from the left or from the right.
\<close>

definition asciiSpace :: "string" where
  "asciiSpace = [CHR 0x09, CHR 0x0A, CHR 0x0B, CHR 0x0C, CHR 0x0D, CHR 0x20]"

definition twoByteSpace :: "string list" where
  "twoByteSpace = [[CHR 0xC2, CHR 0x85], [CHR 0xC2, CHR 0xA0]]"

definition threeByteSpace :: "string list" where
  "threeByteSpace =
     [[CHR 0xE1, CHR 0x9A, CHR 0x80],
      [CHR 0xE2, CHR 0x80, CHR 0x80], [CHR 0xE2, CHR 0x80, CHR 0x81],
      [CHR 0xE2, CHR 0x80, CHR 0x82], [CHR 0xE2, CHR 0x80, CHR 0x83],
      [CHR 0xE2, CHR 0x80, CHR 0x84], [CHR 0xE2, CHR 0x80, CHR 0x85],
      [CHR 0xE2, CHR 0x80, CHR 0x86], [CHR 0xE2, CHR 0x80, CHR 0x87],
      [CHR 0xE2, CHR 0x80, CHR 0x88], [CHR 0xE2, CHR 0x80, CHR 0x89],
      [CHR 0xE2, CHR 0x80, CHR 0x8A],
      [CHR 0xE2, CHR 0x80, CHR 0xA8], [CHR 0xE2, CHR 0x80, CHR 0xA9],
      [CHR 0xE2, CHR 0x80, CHR 0xAF], [CHR 0xE2, CHR 0x81, CHR 0x9F],
      [CHR 0xE3, CHR 0x80, CHR 0x80]]"

text \<open>The width in bytes of the white-space code point at the head of a string, 0 when
  the string does not start with one.\<close>

definition spaceLen :: "string \<Rightarrow> nat" where
  "spaceLen s =
     (case s of [] \<Rightarrow> 0
      | c # cs \<Rightarrow>
          if c \<in> set asciiSpace then 1
          else if (of_char c :: nat) < 128 then 0
          else if take 2 s \<in> set twoByteSpace then 2
          else if take 3 s \<in> set threeByteSpace then 3
          else 0)"

text \<open>The same at the end of a string (the string is given reversed).\<close>

definition spaceLenRev :: "string \<Rightarrow> nat" where
  "spaceLenRev r =
     (case r of [] \<Rightarrow> 0
      | c # cs \<Rightarrow>
          if c \<in> set asciiSpace then 1
          else if (of_char c :: nat) < 128 then 0
          else if rev (take 2 r) \<in> set twoByteSpace then 2
          else if rev (take 3 r) \<in> set threeByteSpace then 3
          else 0)"

fun trimLeftSpace :: "string \<Rightarrow> string" where
  "trimLeftSpace [] = []"
| "trimLeftSpace (c # cs) =
     (if spaceLen (c # cs) = 0 then c # cs
      else trimLeftSpace (drop (spaceLen (c # cs) - 1) cs))"

fun trimLeftSpaceRev :: "string \<Rightarrow> string" where
  "trimLeftSpaceRev [] = []"
| "trimLeftSpaceRev (c # cs) =
     (if spaceLenRev (c # cs) = 0 then c # cs
      else trimLeftSpaceRev (drop (spaceLenRev (c # cs) - 1) cs))"

text \<open>\<^verbatim>\<open>strings.TrimSpace\<close>: all leading and trailing white space removed.\<close>

definition TrimSpace :: "string \<Rightarrow> string" where
  "TrimSpace s = rev (trimLeftSpaceRev (rev (trimLeftSpace s)))"

text \<open>\<^verbatim>\<open>strings.Fields\<close>: the maximal runs of bytes between white-space code points, none
  of them empty. \<open>fieldsFrom k cur s\<close> scans \<open>s\<close> with \<open>k\<close> bytes of a white-space code
  point still to skip and \<open>cur\<close> the field read so far.\<close>

fun fieldsFrom :: "nat \<Rightarrow> string \<Rightarrow> string \<Rightarrow> string list" where
  "fieldsFrom k cur [] = (if cur = [] then [] else [cur])"
| "fieldsFrom (Suc k) cur (c # cs) = fieldsFrom k cur cs"
| "fieldsFrom 0 cur (c # cs) =
     (if spaceLen (c # cs) = 0 then fieldsFrom 0 (cur @ [c]) cs
      else (if cur = [] then [] else [cur]) @ fieldsFrom (spaceLen (c # cs) - 1) [] cs)"

definition Fields :: "string \<Rightarrow> string list" where
  "Fields s = fieldsFrom 0 [] s"

text \<open>\<^verbatim>\<open>strings.Split(s, sep)\<close> for a separator of one byte: the pieces between the
  separators, empty ones included; the result is never empty.\<close>

fun Split :: "string \<Rightarrow> char \<Rightarrow> string list" where
  "Split [] sep = [[]]"
| "Split (c # cs) sep =
     (if c = sep then [] # Split cs sep
      else (case Split cs sep of [] \<Rightarrow> [[c]] | p # ps \<Rightarrow> (c # p) # ps))"

text \<open>\<^verbatim>\<open>strings.Join\<close>, \<^verbatim>\<open>strings.HasPrefix\<close> and \<^verbatim>\<open>strings.TrimSuffix\<close>.\<close>

fun Join :: "string list \<Rightarrow> string \<Rightarrow> string" where
  "Join [] sep = []"
| "Join [a] sep = a"
| "Join (a # b # rest) sep = a @ sep @ Join (b # rest) sep"

definition HasPrefix :: "string \<Rightarrow> string \<Rightarrow> bool" where
  "HasPrefix s pre = (take (length pre) s = pre)"

definition TrimSuffix :: "string \<Rightarrow> string \<Rightarrow> string" where
  "TrimSuffix s suf =
     (if length suf \<le> length s \<and> drop (length s - length suf) s = suf
      then take (length s - length suf) s else s)"

text \<open>\<^verbatim>\<open>strconv.ParseInt(s, 10, 64)\<close>: an optional sign, then one or more decimal digits
  and nothing else; the error result (syntax, or value out of the range of \<^verbatim>\<open>int64\<close>) is
  \<open>None\<close>.\<close>

definition isDigit :: "char \<Rightarrow> bool" where
  "isDigit c = (48 \<le> (of_char c :: nat) \<and> (of_char c :: nat) \<le> 57)"

fun digitsValue :: "nat \<Rightarrow> string \<Rightarrow> nat" where
  "digitsValue acc [] = acc"
| "digitsValue acc (c # cs) = digitsValue (acc * 10 + (of_char c - 48)) cs"

definition ParseUint :: "string \<Rightarrow> nat option" where
  "ParseUint s = (if s \<noteq> [] \<and> list_all isDigit s then Some (digitsValue 0 s) else None)"

definition ParseInt :: "string \<Rightarrow> int64 option" where
  "ParseInt s =
     (case s of [] \<Rightarrow> None
      | c # cs \<Rightarrow>
          if c = CHR ''-'' then
            (case ParseUint cs of None \<Rightarrow> None
             | Some un \<Rightarrow> if un > 2 ^ 63 then None else Some (- word_of_nat un))
          else
            (case ParseUint (if c = CHR ''+'' then cs else s) of None \<Rightarrow> None
             | Some un \<Rightarrow> if un \<ge> 2 ^ 63 then None else Some (word_of_nat un)))"

text \<open>\<^verbatim>\<open>bufio.Scanner\<close> with the default split function \<^verbatim>\<open>ScanLines\<close> over an in-memory
  reader: the lines between newline bytes, a last line with no newline included when it is
  not empty, one trailing carriage return dropped from each line. A line that does not fit
  the 64 KiB buffer of the scanner ends the scan: \<^verbatim>\<open>Scan\<close> returns false there, and the
  program never looks at \<^verbatim>\<open>scanner.Err()\<close>.\<close>

definition MaxScanTokenSize :: nat where
  "MaxScanTokenSize = 65536"

definition dropCR :: "string \<Rightarrow> string" where
  "dropCR l = (if l \<noteq> [] \<and> last l = CHR 0x0D then butlast l else l)"

definition rawLines :: "string \<Rightarrow> string list" where
  "rawLines s = (let segs = Split s (CHR 0x0A) in if last segs = [] then butlast segs else segs)"

definition scanLines :: "string \<Rightarrow> string list" where
  "scanLines s = map dropCR (takeWhile (\<lambda>l. length l < MaxScanTokenSize) (rawLines s))"

section \<open>Service control shim: \<^verbatim>\<open>GetSystemdServices\<close>\<close>

record SystemdService =
  Name :: string
  LoadState :: string
  ActiveState :: string
  SubState :: string
  Description :: string
  Unit :: string
  Type :: string
  MainPID :: string
  Memory :: string
  Tasks :: string

text \<open>The body of the scanner loop: the record appended for one line of the output of
  \<^verbatim>\<open>systemctl list-units\<close>, or \<open>None\<close> when the line is skipped.\<close>

definition parseUnitLine :: "string \<Rightarrow> SystemdService option" where
  "parseUnitLine text =
     (let line = TrimSpace text in
      if line = [] then None
      else
        let fields = Fields line in
        if length fields \<ge> 4 then
          Some \<lparr>Name = TrimSuffix (fields ! 0) ''.service'',
                LoadState = fields ! 1,
                ActiveState = fields ! 2,
                SubState = fields ! 3,
                Description = (if length fields > 4 then Join (drop 4 fields) '' '' else []),
                Unit = fields ! 0,
                Type = [], MainPID = [], Memory = [], Tasks = []\<rparr>
        else None)"







section \<open>Example inputs\<close>

definition example_containers :: "Container list" where
  "example_containers =
     [\<lparr>Container_ID = ''c1'', Container_State = ''running''\<rparr>,
      \<lparr>Container_ID = ''c2'', Container_State = ''paused''\<rparr>,
      \<lparr>Container_ID = ''c3'', Container_State = ''exited''\<rparr>,
      \<lparr>Container_ID = ''c4'', Container_State = ''created''\<rparr>,
      \<lparr>Container_ID = ''c5'', Container_State = ''running''\<rparr>]"

definition example_lists :: "(unit, unit) DockerLists" where
  "example_lists =
     \<lparr>ContainerList = Inr example_containers,
      ImageList = Inr [\<lparr>Image_ID = ''i1'', Image_Size = 100\<rparr>],
      NetworkList = Inr [()],
      VolumeList = Inr []\<rparr>"




section \<open>Floating point\<close>

text \<open>
  A Go \<^verbatim>\<open>float64\<close> is an IEEE 754 binary64 number: a finite value (a rational), an infinity
  or a NaN. The sign of a zero is not represented. Every arithmetic result is the exact
  result rounded to the nearest representable number, ties to the even significand:
  \<open>round64\<close> rounds a rational to 53 significant bits, with the exponent of the leading bit
  not below \<open>-1022\<close> (subnormal numbers) and an infinity from \<open>2 ^ 1024\<close> on.
\<close>

datatype float64 = Finite rat | PosInf | NegInf | NaN

definition pow2 :: "int \<Rightarrow> rat" where
  "pow2 e = (if 0 \<le> e then 2 ^ nat e else 1 / 2 ^ nat (- e))"

text \<open>For \<open>q > 0\<close>, the exponent \<open>e\<close> with \<open>2 ^ e \<le> q < 2 ^ (e + 1)\<close>.\<close>

definition floorLog2 :: "rat \<Rightarrow> int" where
  "floorLog2 q =
     (let (a, b) = quotient_of q; d = bitlen a - bitlen b
      in if pow2 d \<le> q then d else d - 1)"

definition roundHalfEven :: "rat \<Rightarrow> int" where
  "roundHalfEven q =
     (let f = \<lfloor>q\<rfloor>; r = q - of_int f
      in if r < 1 / 2 then f else if 1 / 2 < r then f + 1 else if even f then f else f + 1)"

definition round64 :: "rat \<Rightarrow> float64" where
  "round64 q =
     (if q = 0 then Finite 0
      else
        let a = \<bar>q\<bar>;
            e = max (floorLog2 a) (- 1022);
            ulp = pow2 (e - 52);
            r = of_int (roundHalfEven (a / ulp)) * ulp
        in if pow2 1024 \<le> r then (if 0 < q then PosInf else NegInf)
           else Finite (if 0 < q then r else - r))"

text \<open>The conversion \<^verbatim>\<open>float64(i)\<close> of an \<^verbatim>\<open>int64\<close>, division and multiplication.\<close>

definition float64_of_int64 :: "int64 \<Rightarrow> float64" where
  "float64_of_int64 i = round64 (of_int (sint i))"

fun fdiv :: "float64 \<Rightarrow> float64 \<Rightarrow> float64" where
  "fdiv NaN y = NaN"
| "fdiv x NaN = NaN"
| "fdiv (Finite a) (Finite b) =
     (if b = 0 then (if a = 0 then NaN else if 0 < a then PosInf else NegInf)
      else round64 (a / b))"
| "fdiv (Finite a) y = Finite 0"
| "fdiv x (Finite b) = (if (x = PosInf) = (0 \<le> b) then PosInf else NegInf)"
| "fdiv x y = NaN"

fun fmul :: "float64 \<Rightarrow> float64 \<Rightarrow> float64" where
  "fmul NaN y = NaN"
| "fmul x NaN = NaN"
| "fmul (Finite a) (Finite b) = round64 (a * b)"
| "fmul (Finite a) y =
     (if a = 0 then NaN else if (0 < a) = (y = PosInf) then PosInf else NegInf)"
| "fmul x (Finite b) =
     (if b = 0 then NaN else if (0 < b) = (x = PosInf) then PosInf else NegInf)"
| "fmul x y = (if x = y then PosInf else NegInf)"

text \<open>The conversion \<^verbatim>\<open>int64(f)\<close> drops the fraction of a finite value that fits; for any
  other value the Go specification leaves the result to the implementation, here the
  parameter \<open>impl\<close>.\<close>

definition truncate :: "rat \<Rightarrow> int" where
  "truncate q = (if 0 \<le> q then \<lfloor>q\<rfloor> else \<lceil>q\<rceil>)"

definition int64_of_float64 :: "(float64 \<Rightarrow> int64) \<Rightarrow> float64 \<Rightarrow> int64" where
  "int64_of_float64 impl f =
     (case f of
        Finite q \<Rightarrow>
          if - (2 ^ 63) \<le> truncate q \<and> truncate q < 2 ^ 63 then word_of_int (truncate q)
          else impl f
      | _ \<Rightarrow> impl f)"

section \<open>Host metrics reader: \<^verbatim>\<open>GetHostSystemInfo\<close>\<close>

record HostSystemInfo =
  Uptime :: string
  UptimeSeconds :: int64
  LoadAverage1 :: float64
  LoadAverage5 :: float64
  LoadAverage15 :: float64
  MemoryTotal :: int64
  MemoryUsed :: int64
  MemoryAvailable :: int64
  MemoryUsedPct :: float64
  NetworkConnections :: int
  CPUCores :: int

text \<open>The zero value \<^verbatim>\<open>&models.HostSystemInfo{}\<close>.\<close>

definition HostSystemInfo_zero :: HostSystemInfo where
  "HostSystemInfo_zero =
     \<lparr>Uptime = [], UptimeSeconds = 0,
      LoadAverage1 = Finite 0, LoadAverage5 = Finite 0, LoadAverage15 = Finite 0,
      MemoryTotal = 0, MemoryUsed = 0, MemoryAvailable = 0, MemoryUsedPct = Finite 0,
      NetworkConnections = 0, CPUCores = 0\<rparr>"

text \<open>
  What the function reads from its environment: the files (\<^verbatim>\<open>ioutil.ReadFile\<close>),
  the number of processors (\<^verbatim>\<open>runtime.NumCPU\<close>), and two parts of the Go library that are
  parameters of the model: \<^verbatim>\<open>strconv.ParseFloat(s, 64)\<close>, with \<open>None\<close> for its error result,
  and the implementation-dependent part of the conversion \<^verbatim>\<open>int64(f)\<close>.
\<close>

record HostEnv =
  ReadFile :: "string \<Rightarrow> error + string"
  NumCPU :: int
  ParseFloat :: "string \<Rightarrow> float64 option"
  ConvImpl :: "float64 \<Rightarrow> int64"

text \<open>\<^verbatim>\<open>fmt.Sprintf("%d", n)\<close>.\<close>

function natToString :: "nat \<Rightarrow> string" where
  "natToString n =
     (if n < 10 then [''0123456789'' ! n]
      else natToString (n div 10) @ [''0123456789'' ! (n mod 10)])"
  by pat_completeness auto
termination
  by (relation "measure id") auto

declare natToString.simps [simp del]

definition intToString :: "int \<Rightarrow> string" where
  "intToString i = (if i < 0 then CHR ''-'' # natToString (nat (- i)) else natToString (nat i))"

text \<open>\<^verbatim>\<open>formatUptime\<close>. Go's \<^verbatim>\<open>/\<close> and \<^verbatim>\<open>%\<close> truncate towards zero.\<close>

definition formatUptime :: "int64 \<Rightarrow> string" where
  "formatUptime seconds =
     (let days = sint seconds sdiv 86400;
          hours = (sint seconds smod 86400) sdiv 3600;
          minutes = (sint seconds smod 3600) sdiv 60
      in if 0 < days then
           intToString days @ ''d '' @ intToString hours @ ''h '' @ intToString minutes @ ''m''
         else if 0 < hours then
           intToString hours @ ''h '' @ intToString minutes @ ''m''
         else intToString minutes @ ''m'')"

text \<open>The four blocks of \<^verbatim>\<open>GetHostSystemInfo\<close>, each the body of an
  \<^verbatim>\<open>if data, err := ioutil.ReadFile(...); err == nil\<close> applied to the content of its file.\<close>

definition uptimeBlock :: "HostEnv \<Rightarrow> string \<Rightarrow> HostSystemInfo \<Rightarrow> HostSystemInfo" where
  "uptimeBlock env uptimeData hostInfo =
     (let uptimeStr = TrimSpace uptimeData;
          uptimeParts = Split uptimeStr (CHR '' '')
      in if 0 < length uptimeParts then
           (case ParseFloat env (uptimeParts ! 0) of
              None \<Rightarrow> hostInfo
            | Some uptimeSeconds \<Rightarrow>
                hostInfo\<lparr>UptimeSeconds := int64_of_float64 (ConvImpl env) uptimeSeconds,
                         Uptime := formatUptime (int64_of_float64 (ConvImpl env) uptimeSeconds)\<rparr>)
         else hostInfo)"

definition loadBlock :: "HostEnv \<Rightarrow> string \<Rightarrow> HostSystemInfo \<Rightarrow> HostSystemInfo" where
  "loadBlock env loadData hostInfo =
     (let loadStr = TrimSpace loadData;
          loadParts = Split loadStr (CHR '' '')
      in if 3 \<le> length loadParts then
           (let hostInfo = (case ParseFloat env (loadParts ! 0) of
                              None \<Rightarrow> hostInfo
                            | Some load1 \<Rightarrow> hostInfo\<lparr>LoadAverage1 := load1\<rparr>);
                hostInfo = (case ParseFloat env (loadParts ! 1) of
                              None \<Rightarrow> hostInfo
                            | Some load5 \<Rightarrow> hostInfo\<lparr>LoadAverage5 := load5\<rparr>);
                hostInfo = (case ParseFloat env (loadParts ! 2) of
                              None \<Rightarrow> hostInfo
                            | Some load15 \<Rightarrow> hostInfo\<lparr>LoadAverage15 := load15\<rparr>)
            in hostInfo)
         else hostInfo)"

text \<open>The body of the scanner loop over the lines of \<^verbatim>\<open>/proc/meminfo\<close>.\<close>

definition memLine :: "string \<Rightarrow> HostSystemInfo \<Rightarrow> HostSystemInfo" where
  "memLine line hostInfo =
     (if HasPrefix line ''MemTotal:'' then
        (let parts = Fields line
         in if 2 \<le> length parts then
              (case ParseInt (parts ! 1) of
                 None \<Rightarrow> hostInfo
               | Some total' \<Rightarrow> hostInfo\<lparr>MemoryTotal := total' * 1024\<rparr>)
            else hostInfo)
      else if HasPrefix line ''MemAvailable:'' then
        (let parts = Fields line
         in if 2 \<le> length parts then
              (case ParseInt (parts ! 1) of
                 None \<Rightarrow> hostInfo
               | Some available \<Rightarrow> hostInfo\<lparr>MemoryAvailable := available * 1024\<rparr>)
            else hostInfo)
      else hostInfo)"

fun memLines :: "string list \<Rightarrow> HostSystemInfo \<Rightarrow> HostSystemInfo" where
  "memLines [] hostInfo = hostInfo"
| "memLines (line # rest) hostInfo = memLines rest (memLine line hostInfo)"

definition memBlock :: "string \<Rightarrow> HostSystemInfo \<Rightarrow> HostSystemInfo" where
  "memBlock memData hostInfo =
     (let hostInfo = memLines (scanLines memData) hostInfo;
          hostInfo = hostInfo\<lparr>MemoryUsed := MemoryTotal hostInfo - MemoryAvailable hostInfo\<rparr>
      in if 0 < sint (MemoryTotal hostInfo) then
           hostInfo\<lparr>MemoryUsedPct :=
             fmul (fdiv (float64_of_int64 (MemoryUsed hostInfo))
                        (float64_of_int64 (MemoryTotal hostInfo)))
                  (Finite 100)\<rparr>
         else hostInfo)"

definition netBlock :: "string \<Rightarrow> HostSystemInfo \<Rightarrow> HostSystemInfo" where
  "netBlock netData hostInfo =
     (let lines = Split netData (CHR 0x0A);
          hostInfo = hostInfo\<lparr>NetworkConnections := int (length lines) - 2\<rparr>
      in if NetworkConnections hostInfo < 0 then hostInfo\<lparr>NetworkConnections := 0\<rparr>
         else hostInfo)"

text \<open>\<^verbatim>\<open>GetHostSystemInfo\<close> returns the snapshot and its error result; \<open>None\<close> is \<^verbatim>\<open>nil\<close>.\<close>

definition GetHostSystemInfo :: "HostEnv \<Rightarrow> HostSystemInfo \<times> error option" where
  "GetHostSystemInfo env =
     (let hostInfo = HostSystemInfo_zero;
          hostInfo = (case ReadFile env ''/proc/uptime'' of
                        Inl err \<Rightarrow> hostInfo
                      | Inr uptimeData \<Rightarrow> uptimeBlock env uptimeData hostInfo);
          hostInfo = (case ReadFile env ''/proc/loadavg'' of
                        Inl err \<Rightarrow> hostInfo
                      | Inr loadData \<Rightarrow> loadBlock env loadData hostInfo);
          hostInfo = (case ReadFile env ''/proc/meminfo'' of
                        Inl err \<Rightarrow> hostInfo
                      | Inr memData \<Rightarrow> memBlock memData hostInfo);
          hostInfo = hostInfo\<lparr>CPUCores := NumCPU env\<rparr>;
          hostInfo = (case ReadFile env ''/proc/net/tcp'' of
                        Inl err \<Rightarrow> hostInfo
                      | Inr netData \<Rightarrow> netBlock netData hostInfo)
      in (hostInfo, None))"

section \<open>HTTP gateway: responses\<close>

text \<open>
  What a handler leaves on its \<^verbatim>\<open>http.ResponseWriter\<close>: the status code (200 when the
  handler never calls \<^verbatim>\<open>WriteHeader\<close>), the \<^verbatim>\<open>Content-Type\<close> header when the handler sets it,
  and the body. \<open>Json v\<close> stands for the bytes that \<^verbatim>\<open>json.NewEncoder(w).Encode(v)\<close> writes.
\<close>

datatype 'a body = Text string | Json 'a

record 'a response =
  status :: nat
  contentType :: "string option"
  body :: "'a body"

text \<open>\<^verbatim>\<open>http.Error(w, msg, code)\<close> sends the message as plain text, followed by a newline.\<close>

definition httpError :: "string \<Rightarrow> nat \<Rightarrow> 'a response" where
  "httpError msg code =
     \<lparr>status = code, contentType = Some ''text/plain; charset=utf-8'',
      body = Text (msg @ [CHR 0x0A])\<rparr>"

definition StatusInternalServerError :: nat where
  "StatusInternalServerError = 500"

definition jsonResponse :: "'a \<Rightarrow> 'a response" where
  "jsonResponse v = \<lparr>status = 200, contentType = Some ''application/json'', body = Json v\<rparr>"

text \<open>The handler of \<^verbatim>\<open>/api/system/host\<close>.\<close>

definition api_GetHostSystemInfo :: "HostEnv \<Rightarrow> HostSystemInfo response" where
  "api_GetHostSystemInfo env =
     (case GetHostSystemInfo env of
        (hostInfo, Some err) \<Rightarrow>
          httpError (''Failed to get host info: '' @ Error err) StatusInternalServerError
      | (hostInfo, None) \<Rightarrow> jsonResponse hostInfo)"

section \<open>An example host\<close>

text \<open>
  An instance of the parameter \<open>ParseFloat\<close> for the examples: it reads the decimal
  literals \<^verbatim>\<open>digits\<close> and \<^verbatim>\<open>digits.digits\<close>, the form of the numbers in \<^verbatim>\<open>/proc/uptime\<close> and
  \<^verbatim>\<open>/proc/loadavg\<close>, to the nearest \<^verbatim>\<open>float64\<close> as \<^verbatim>\<open>strconv.ParseFloat\<close> does, and reports
  an error for every other string.
\<close>

definition parseDecimal :: "string \<Rightarrow> float64 option" where
  "parseDecimal s =
     (let ip = takeWhile isDigit s; rest = dropWhile isDigit s
      in if ip = [] then None
         else if rest = [] then Some (round64 (of_nat (digitsValue 0 ip)))
         else if hd rest = CHR ''.'' \<and> tl rest \<noteq> [] \<and> list_all isDigit (tl rest)
           then Some (round64 (of_nat (digitsValue 0 (ip @ tl rest)) / 10 ^ length (tl rest)))
         else None)"

definition example_meminfo :: string where
  "example_meminfo = ''MemTotal: 1000 kB\<newline>MemFree: 100 kB\<newline>MemAvailable: 400 kB\<newline>''"

text \<open>A host on which \<^verbatim>\<open>/proc/net/tcp\<close> cannot be read.\<close>

definition example_env :: HostEnv where
  "example_env =
     \<lparr>ReadFile = (\<lambda>path.
        if path = ''/proc/uptime'' then Inr ''90061.52 18.10\<newline>''
        else if path = ''/proc/loadavg'' then Inr ''0.5 0.25 2 1/234 5678\<newline>''
        else if path = ''/proc/meminfo'' then Inr example_meminfo
        else Inl (MkError (''open '' @ path @ '': no such file or directory''))),
      NumCPU = 4,
      ParseFloat = parseDecimal,
      ConvImpl = (\<lambda>f. - (2 ^ 63))\<rparr>"

text \<open>A \<^verbatim>\<open>/proc/meminfo\<close> with a total of \<open>2 ^ 53\<close> kilobytes.\<close>

definition overflow_meminfo :: string where
  "overflow_meminfo = ''MemTotal: 9007199254740992 kB\<newline>MemAvailable: 0 kB\<newline>''"

section \<open>Properties of \<^verbatim>\<open>GetSystemStats\<close>\<close>

lemma countContainer_Running:
  "Containers_Running (countContainer c s) =
     Containers_Running s + (if Container_State c = ''running'' then 1 else 0)"
  by (simp add: countContainer_def)

lemma countContainer_Paused:
  "Containers_Paused (countContainer c s) =
     Containers_Paused s + (if Container_State c = ''paused'' then 1 else 0)"
  by (simp add: countContainer_def)

lemma countContainer_Stopped:
  "Containers_Stopped (countContainer c s) =
     Containers_Stopped s +
       (if Container_State c \<noteq> ''running'' \<and> Container_State c \<noteq> ''paused'' then 1 else 0)"
  by (simp add: countContainer_def)

lemma countContainer_others:
  "Containers_Total (countContainer c s) = Containers_Total s"
  "Images_Total (countContainer c s) = Images_Total s"
  "Images_Size (countContainer c s) = Images_Size s"
  "Networks_Total (countContainer c s) = Networks_Total s"
  "Volumes_Total (countContainer c s) = Volumes_Total s"
  by (simp_all add: countContainer_def)

lemma countContainers_Running:
  "Containers_Running (countContainers cs s) =
     Containers_Running s + length (filter (\<lambda>c. Container_State c = ''running'') cs)"
  by (induction cs arbitrary: s) (simp_all add: countContainer_Running)

lemma countContainers_Paused:
  "Containers_Paused (countContainers cs s) =
     Containers_Paused s + length (filter (\<lambda>c. Container_State c = ''paused'') cs)"
  by (induction cs arbitrary: s) (simp_all add: countContainer_Paused)

lemma countContainers_Stopped:
  "Containers_Stopped (countContainers cs s) =
     Containers_Stopped s +
       length (filter (\<lambda>c. Container_State c \<noteq> ''running'' \<and> Container_State c \<noteq> ''paused'') cs)"
  by (induction cs arbitrary: s) (simp_all add: countContainer_Stopped)

lemma countContainers_Total:
  "Containers_Total (countContainers cs s) = Containers_Total s"
  by (induction cs arbitrary: s) (simp_all add: countContainer_others)

lemma sumImageSizes_containers:
  "Containers_Running (sumImageSizes imgs s) = Containers_Running s"
  "Containers_Paused (sumImageSizes imgs s) = Containers_Paused s"
  "Containers_Stopped (sumImageSizes imgs s) = Containers_Stopped s"
  "Containers_Total (sumImageSizes imgs s) = Containers_Total s"
  by (induction imgs arbitrary: s) simp_all

lemma partition_three:
  "length (filter (\<lambda>c. Container_State c = ''running'') cs) +
   length (filter (\<lambda>c. Container_State c = ''paused'') cs) +
   length (filter (\<lambda>c. Container_State c \<noteq> ''running'' \<and> Container_State c \<noteq> ''paused'') cs)
   = length cs"
  by (induction cs) auto

text \<open>
  Claim C1. When the four list calls succeed and the daemon returns the containers \<open>cs\<close>,
  \<^verbatim>\<open>GetSystemStats\<close> returns statistics in which \<^verbatim>\<open>Containers.Running\<close> is the number of
  containers whose state string is \<^verbatim>\<open>"running"\<close>, \<^verbatim>\<open>Containers.Paused\<close> the number whose state
  is \<^verbatim>\<open>"paused"\<close>, and \<^verbatim>\<open>Containers.Stopped\<close> the number of all others, each counted once;
  the three counts add up to \<^verbatim>\<open>Containers.Total\<close>, which is the length of the list.
\<close>

theorem GetSystemStats_partition:
  assumes "ContainerList d = Inr cs" and "ImageList d = Inr imgs"
    and "NetworkList d = Inr ns" and "VolumeList d = Inr vs"
  shows "\<exists>stats. GetSystemStats d = Inr stats \<and>
     Containers_Running stats = length (filter (\<lambda>c. Container_State c = ''running'') cs) \<and>
     Containers_Paused stats = length (filter (\<lambda>c. Container_State c = ''paused'') cs) \<and>
     Containers_Stopped stats =
       length (filter (\<lambda>c. Container_State c \<noteq> ''running'' \<and> Container_State c \<noteq> ''paused'') cs) \<and>
     Containers_Total stats = length cs \<and>
     Containers_Running stats + Containers_Paused stats + Containers_Stopped stats
       = Containers_Total stats"
  using assms partition_three [of cs]
  by (simp add: GetSystemStats_def Let_def SystemStats_zero_def sumImageSizes_containers
      countContainers_Running countContainers_Paused countContainers_Stopped
      countContainers_Total)

theorem GetSystemStats_partition_witness:
  "\<exists>stats. GetSystemStats example_lists = Inr stats \<and>
     Containers_Running stats = 2 \<and> Containers_Paused stats = 1 \<and>
     Containers_Stopped stats = 2 \<and> Containers_Total stats = 5"
  using GetSystemStats_partition [of example_lists example_containers
      "[\<lparr>Image_ID = ''i1'', Image_Size = 100\<rparr>]" "[()]" "[]"]
  by (auto simp add: example_lists_def example_containers_def eval_nat_numeral)

section \<open>Properties of the service listing\<close>














section \<open>Properties of the unit-line parser\<close>

lemma spaceLen_Nil: "spaceLen [] = 0"
  by (simp add: spaceLen_def)

lemma take_append_eq: "take n t = w \<Longrightarrow> length w = n \<Longrightarrow> take n (t @ u) = w"
  by (cases "n \<le> length t") auto

lemma take_append_sep:
  assumes "take n (t @ x # u) = w" and "x \<notin> set w"
  shows "take n t = w"
proof (cases "n \<le> length t")
  case True
  with assms(1) show ?thesis by simp
next
  case False
  then obtain m where "n - length t = Suc m"
    by (metis Suc_diff_Suc diff_is_0_eq' not_less_eq_eq nat_le_linear not_le old.nat.exhaust)
  with assms(1) have "w = t @ x # take m u" by auto
  with assms(2) show ?thesis by simp
qed

lemma twoByteSpace_length: "w \<in> set twoByteSpace \<Longrightarrow> length w = 2"
  by (auto simp: twoByteSpace_def)

lemma threeByteSpace_length: "w \<in> set threeByteSpace \<Longrightarrow> length w = 3"
  by (auto simp: threeByteSpace_def)

lemma twoByteSpace_blank: "w \<in> set twoByteSpace \<Longrightarrow> CHR '' '' \<notin> set w"
  by (auto simp: twoByteSpace_def)

lemma threeByteSpace_blank: "w \<in> set threeByteSpace \<Longrightarrow> CHR '' '' \<notin> set w"
  by (auto simp: threeByteSpace_def)

lemma spaceLen_Cons:
  "spaceLen (c # cs) =
     (if c \<in> set asciiSpace then 1
      else if (of_char c :: nat) < 128 then 0
      else if take 2 (c # cs) \<in> set twoByteSpace then 2
      else if take 3 (c # cs) \<in> set threeByteSpace then 3
      else 0)"
  by (simp add: spaceLen_def)

lemma spaceLen_prefix:
  assumes "spaceLen (t @ u) = 0"
  shows "spaceLen t = 0"
proof (cases t)
  case Nil
  then show ?thesis by (simp add: spaceLen_Nil)
next
  case (Cons c cs)
  have two: "take 2 (t @ u) \<in> set twoByteSpace" if h: "take 2 t \<in> set twoByteSpace"
  proof -
    have "length (take 2 t) = 2" using h by (rule twoByteSpace_length)
    then have "take 2 (t @ u) = take 2 t" by (rule take_append_eq [OF refl])
    with h show ?thesis by (simp only:)
  qed
  have three: "take 3 (t @ u) \<in> set threeByteSpace" if h: "take 3 t \<in> set threeByteSpace"
  proof -
    have "length (take 3 t) = 3" using h by (rule threeByteSpace_length)
    then have "take 3 (t @ u) = take 3 t" by (rule take_append_eq [OF refl])
    with h show ?thesis by (simp only:)
  qed
  from assms two three show ?thesis
    unfolding Cons append_Cons spaceLen_Cons
    by (auto split: if_splits)
qed

lemma spaceLen_blank:
  assumes "spaceLen t = 0" and "t \<noteq> []"
  shows "spaceLen (t @ CHR '' '' # u) = 0"
proof -
  from assms(2) obtain c cs where t: "t = c # cs" by (cases t) auto
  have two: "take 2 t \<in> set twoByteSpace"
    if h: "take 2 (t @ CHR '' '' # u) \<in> set twoByteSpace"
  proof -
    have "take 2 t = take 2 (t @ CHR '' '' # u)"
      using twoByteSpace_blank [OF h] by (intro take_append_sep [OF refl])
    with h show ?thesis by (simp only:)
  qed
  have three: "take 3 t \<in> set threeByteSpace"
    if h: "take 3 (t @ CHR '' '' # u) \<in> set threeByteSpace"
  proof -
    have "take 3 t = take 3 (t @ CHR '' '' # u)"
      using threeByteSpace_blank [OF h] by (intro take_append_sep [OF refl])
    with h show ?thesis by (simp only:)
  qed
  from assms(1) two three show ?thesis
    unfolding t append_Cons spaceLen_Cons
    by (auto split: if_splits)
qed

lemma spaceLen_blank_head: "spaceLen (CHR '' '' # u) = 1"
  by (simp add: spaceLen_Cons asciiSpace_def)

lemma fieldsFrom_clean:
  assumes "\<forall>i<length cur. spaceLen (drop i cur @ s) = 0" and "0 < k \<longrightarrow> cur = []"
  shows "\<forall>f \<in> set (fieldsFrom k cur s). f \<noteq> [] \<and> (\<forall>i<length f. spaceLen (drop i f) = 0)"
  using assms
proof (induction k cur s rule: fieldsFrom.induct)
  case (1 k cur)
  then show ?case by simp
next
  case (2 k cur c cs)
  then show ?case by simp
next
  case (3 cur c cs)
  show ?case
  proof (cases "spaceLen (c # cs) = 0")
    case True
    have "\<forall>i<length (cur @ [c]). spaceLen (drop i (cur @ [c]) @ cs) = 0"
    proof (intro allI impI)
      fix i assume "i < length (cur @ [c])"
      then consider "i < length cur" | "i = length cur" by fastforce
      then show "spaceLen (drop i (cur @ [c]) @ cs) = 0"
      proof cases
        case 1
        with "3.prems"(1) show ?thesis by simp
      next
        case 2
        with True show ?thesis by simp
      qed
    qed
    with "3.IH"(1) [OF True] True show ?thesis by simp
  next
    case False
    have cur: "\<forall>i<length cur. spaceLen (drop i cur) = 0"
      using "3.prems"(1) spaceLen_prefix by blast
    have "\<forall>f \<in> set (fieldsFrom (spaceLen (c # cs) - 1) [] cs).
            f \<noteq> [] \<and> (\<forall>i<length f. spaceLen (drop i f) = 0)"
      using "3.IH"(2) [OF False] by simp
    with cur False show ?thesis by auto
  qed
qed

lemma Fields_clean:
  "f \<in> set (Fields s) \<Longrightarrow> f \<noteq> [] \<and> (\<forall>i<length f. spaceLen (drop i f) = 0)"
  using fieldsFrom_clean [of "[]" s 0] by (simp add: Fields_def)

lemma fieldsFrom_word:
  "\<forall>i<length f. spaceLen (drop i f @ rest) = 0 \<Longrightarrow>
   fieldsFrom 0 cur (f @ rest) = fieldsFrom 0 (cur @ f) rest"
proof (induction f arbitrary: cur)
  case Nil
  then show ?case by simp
next
  case (Cons c f)
  from Cons.prems have head: "spaceLen (c # f @ rest) = 0" by auto
  from Cons.prems have "\<forall>i<length f. spaceLen (drop i f @ rest) = 0" by fastforce
  then have "fieldsFrom 0 (cur @ [c]) (f @ rest) = fieldsFrom 0 ((cur @ [c]) @ f) rest"
    by (rule Cons.IH)
  with head show ?case by simp
qed

lemma Fields_Join:
  "\<forall>f \<in> set fs. f \<noteq> [] \<and> (\<forall>i<length f. spaceLen (drop i f) = 0) \<Longrightarrow>
   Fields (Join fs '' '') = fs"
proof (induction fs "'' ''" rule: Join.induct)
  case 1
  then show ?case by (simp add: Fields_def)
next
  case (2 a)
  then have "fieldsFrom 0 [] (a @ []) = fieldsFrom 0 ([] @ a) []"
    by (intro fieldsFrom_word) simp
  with 2 show ?case by (simp add: Fields_def)
next
  case (3 a b rest)
  let ?J = "Join (b # rest) '' ''"
  have "\<forall>i<length a. spaceLen (drop i a @ CHR '' '' # ?J) = 0"
    using "3.prems" by (simp add: spaceLen_blank)
  then have "fieldsFrom 0 [] (a @ CHR '' '' # ?J) = fieldsFrom 0 ([] @ a) (CHR '' '' # ?J)"
    by (rule fieldsFrom_word)
  moreover have "Fields ?J = b # rest"
    using 3 by simp
  ultimately show ?case
    using "3.prems" by (simp add: Fields_def spaceLen_blank_head)
qed

text \<open>
  Claim C3, as amended. A line of the output of \<^verbatim>\<open>systemctl list-units\<close> is accepted if and
  only if, once trimmed, it splits into at least four white-space separated fields; the
  first four become unit (and name), load state, active state and sub-state, and the
  fields past the fourth, joined by one space each, become the description. The words of
  the description are therefore the remaining fields in their order, but every run of
  white space between them is replaced by a single space: irregular spacing is not kept.
\<close>

theorem parseUnitLine_fields:
  "(parseUnitLine text \<noteq> None \<longleftrightarrow> 4 \<le> length (Fields (TrimSpace text))) \<and>
   (\<forall>r. parseUnitLine text = Some r \<longrightarrow>
      Unit r = Fields (TrimSpace text) ! 0 \<and>
      Name r = TrimSuffix (Fields (TrimSpace text) ! 0) ''.service'' \<and>
      LoadState r = Fields (TrimSpace text) ! 1 \<and>
      ActiveState r = Fields (TrimSpace text) ! 2 \<and>
      SubState r = Fields (TrimSpace text) ! 3 \<and>
      Description r = Join (drop 4 (Fields (TrimSpace text))) '' '' \<and>
      Fields (Description r) = drop 4 (Fields (TrimSpace text)))"
proof -
  let ?fs = "Fields (TrimSpace text)"
  have empty: "TrimSpace text = [] \<Longrightarrow> ?fs = []"
    by (simp add: Fields_def)
  have "\<forall>f \<in> set (drop 4 ?fs). f \<noteq> [] \<and> (\<forall>i<length f. spaceLen (drop i f) = 0)"
    using Fields_clean [of _ "TrimSpace text"] in_set_dropD by fast
  then have words: "Fields (Join (drop 4 ?fs) '' '') = drop 4 ?fs"
    by (rule Fields_Join)
  have short: "\<not> 4 < length ?fs \<Longrightarrow> Join (drop 4 ?fs) '' '' = []"
    by simp
  show ?thesis
    using empty words short
    by (auto simp: parseUnitLine_def Let_def)
qed

text \<open>
  Claim C3 as stated fails: a description with two spaces between its words is not
  preserved verbatim, the parser returns it with one space.
\<close>

theorem parseUnitLine_verbatim_counterexample:
  "map_option Description (parseUnitLine ''nginx.service loaded active running Web  server'')
     = Some ''Web server'' \<and>
   map_option Description (parseUnitLine ''nginx.service loaded active running Web  server'')
     \<noteq> Some ''Web  server''"
  by (simp add: parseUnitLine_def TrimSpace_def Fields_def spaceLen_def spaceLenRev_def
      asciiSpace_def Let_def TrimSuffix_def)

theorem parseUnitLine_fields_witness:
  "parseUnitLine ''  nginx.service loaded active running  A high	performance   web server ''
     \<noteq> None \<and>
   map_option Description
     (parseUnitLine ''  nginx.service loaded active running  A high	performance   web server '')
     = Some ''A high performance web server'' \<and>
   map_option Name
     (parseUnitLine ''  nginx.service loaded active running  A high	performance   web server '')
     = Some ''nginx'' \<and>
   Fields ''A high performance web server'' = [''A'', ''high'', ''performance'', ''web'', ''server'']"
  using parseUnitLine_fields
    [of "''  nginx.service loaded active running  A high	performance   web server ''"]
  by (simp add: parseUnitLine_def TrimSpace_def Fields_def spaceLen_def spaceLenRev_def
      asciiSpace_def Let_def TrimSuffix_def)

end
